theory Spec2Isabelle
  imports Main "HOL-Library.AList" "HOL-Library.Sublist"
begin

section \<open>Values, annotation records and the input table\<close>

text \<open>
  The graph generator of pyBiodatafuse (\<^verbatim>\<open>graph/generator.py\<close>) reads a pandas table
  whose cells are scalars or lists of annotation records (dictionaries with string keys).
  Scalars are \<^verbatim>\<open>None\<close>, the float NaN (the missing-value sentinel of pandas), strings
  and integers. NaN is one value: \<^verbatim>\<open>json.loads\<close> returns the same NaN object each time,
  and dictionaries and sets of CPython compare by identity first. Finite floats are left
  out: nothing below computes with numbers, and their equality with integers is not that
  of a datatype.
\<close>

datatype error = KeyError | TypeError | ValueError | NameError | AttributeError

datatype scalar = SNone | SNaN | SStr string | SNum int

type_synonym annot = "(string \<times> scalar) list"

datatype cell = Scalar scalar | Records "annot list"

type_synonym row = "(string \<times> cell) list"

record dataframe =
  columns :: "string list"
  rows :: "row list"

text \<open>
  A Python dictionary is an association list in insertion order: \<open>map_of\<close> reads it,
  \<open>AList.update\<close> assigns a key (in place, or appended when new), \<open>AList.delete\<close> removes
  it. The keys of an attribute dictionary are scalars, because the gene node takes one of
  its keys from the cell \<^verbatim>\<open>row["target.source"]\<close>.
\<close>

type_synonym dict = "(scalar \<times> cell) list"

datatype attr = Val cell | Dict dict

type_synonym attrs = "(scalar \<times> attr) list"

definition ebind :: "error + 'a \<Rightarrow> ('a \<Rightarrow> error + 'b) \<Rightarrow> error + 'b" where
  "ebind m f = (case m of Inl e \<Rightarrow> Inl e | Inr x \<Rightarrow> f x)"

text \<open>A \<^verbatim>\<open>for\<close> loop over a list that threads a state and stops at the first exception.\<close>

fun for_each :: "('s \<Rightarrow> 'a \<Rightarrow> error + 's) \<Rightarrow> 's \<Rightarrow> 'a list \<Rightarrow> error + 's" where
  "for_each body s [] = Inr s"
| "for_each body s (x # xs) = ebind (body s x) (\<lambda>s'. for_each body s' xs)"

definition getitem :: "(string \<times> 'v) list \<Rightarrow> string \<Rightarrow> error + 'v" where
  "getitem d k = (case map_of d k of None \<Rightarrow> Inl KeyError | Some v \<Rightarrow> Inr v)"

fun isna :: "scalar \<Rightarrow> bool" where
  "isna SNone = True"
| "isna SNaN = True"
| "isna (SStr s) = False"
| "isna (SNum n) = False"

definition dict_update :: "('k \<times> 'v) list \<Rightarrow> ('k \<times> 'v) list \<Rightarrow> ('k \<times> 'v) list" where
  "dict_update old new = fold (\<lambda>(k, v). AList.update k v) new old"

section \<open>The graph: a networkx MultiDiGraph\<close>

text \<open>
  Nodes are kept with their attribute dictionaries in insertion order. The edges are one
  list in insertion order; the parallel edges between an ordered pair are the entries of
  that pair, and the key networkx gives an edge is its position among them (edges are
  never removed here, so \<^verbatim>\<open>new_edge_key\<close> is the number of parallel edges so far).
\<close>

record graph =
  nodes :: "(scalar \<times> attrs) list"
  edges :: "(scalar \<times> scalar \<times> attrs) list"

definition empty_graph :: graph where
  "empty_graph = \<lparr>nodes = [], edges = []\<rparr>"

definition has_node :: "graph \<Rightarrow> scalar \<Rightarrow> bool" where
  "has_node g n = (map_of (nodes g) n \<noteq> None)"

text \<open>
  \<^verbatim>\<open>add_node(n, **attr)\<close>: a new node gets the attributes, an existing node has its
  dictionary updated with them; \<^verbatim>\<open>None\<close> cannot become a node.
\<close>

definition add_node :: "graph \<Rightarrow> scalar \<Rightarrow> attrs \<Rightarrow> error + graph" where
  "add_node g n attr =
     (case map_of (nodes g) n of
        None \<Rightarrow>
          if n = SNone then Inl ValueError
          else Inr (g\<lparr>nodes := nodes g @ [(n, dict_update [] attr)]\<rparr>)
      | Some old \<Rightarrow> Inr (g\<lparr>nodes := AList.update n (dict_update old attr) (nodes g)\<rparr>))"

definition ensure_node :: "graph \<Rightarrow> scalar \<Rightarrow> error + graph" where
  "ensure_node g n =
     (if has_node g n then Inr g
      else if n = SNone then Inl ValueError
      else Inr (g\<lparr>nodes := nodes g @ [(n, [])]\<rparr>))"

text \<open>
  \<^verbatim>\<open>add_edge(u, v, **attr)\<close> without a key: both endpoints are created, with no
  attributes, when they are not nodes yet; the edge is always a new parallel edge.
\<close>

definition add_edge :: "graph \<Rightarrow> scalar \<Rightarrow> scalar \<Rightarrow> attrs \<Rightarrow> error + graph" where
  "add_edge g u v attr =
     ebind (ensure_node g u) (\<lambda>g1.
     ebind (ensure_node g1 v) (\<lambda>g2.
       Inr (g2\<lparr>edges := edges g2 @ [(u, v, dict_update [] attr)]\<rparr>)))"

definition edges_between :: "graph \<Rightarrow> scalar \<Rightarrow> scalar \<Rightarrow> attrs list" where
  "edges_between g u v =
     map (\<lambda>e. snd (snd e)) (filter (\<lambda>e. fst e = u \<and> fst (snd e) = v) (edges g))"

text \<open>
  \<^verbatim>\<open>get_edge_data(u, v)\<close> is the dictionary from edge key to attributes, or \<^verbatim>\<open>None\<close>,
  which every caller replaces by the empty dictionary.
\<close>

definition get_edge_data :: "graph \<Rightarrow> scalar \<Rightarrow> scalar \<Rightarrow> (nat \<times> attrs) list" where
  "get_edge_data g u v = enumerate 0 (edges_between g u v)"

definition has_edge :: "graph \<Rightarrow> scalar \<Rightarrow> scalar \<Rightarrow> bool" where
  "has_edge g u v = (edges_between g u v \<noteq> [])"

section \<open>Edge identity\<close>

text \<open>
  \<^verbatim>\<open>hash(frozenset(edge_attrs.items()))\<close>: the hash function of the interpreter is a
  parameter, applied to the set of items.
\<close>

type_synonym hashfn = "(scalar \<times> cell) set \<Rightarrow> int"

definition stored_hash :: "attrs \<Rightarrow> error + cell" where
  \<comment> \<open>\<^verbatim>\<open>y["attr_dict"]["edge_hash"]\<close>\<close>
  "stored_hash y =
     (case map_of y (SStr ''attr_dict'') of
        None \<Rightarrow> Inl KeyError
      | Some (Val c) \<Rightarrow> Inl TypeError
      | Some (Dict d) \<Rightarrow>
          (case map_of d (SStr ''edge_hash'') of None \<Rightarrow> Inl KeyError | Some h \<Rightarrow> Inr h))"

fun node_exists :: "int \<Rightarrow> (nat \<times> attrs) list \<Rightarrow> error + nat list" where
  \<comment> \<open>\<^verbatim>\<open>[x for x, y in edge_data.items() if y["attr_dict"]["edge_hash"] == edge_hash]\<close>\<close>
  "node_exists edge_hash [] = Inr []"
| "node_exists edge_hash ((x, y) # rest) =
     ebind (stored_hash y) (\<lambda>h.
     ebind (node_exists edge_hash rest) (\<lambda>r.
       Inr (if h = Scalar (SNum edge_hash) then x # r else r)))"

text \<open>
  The block every hashing builder ends with (lines 59-68 in the DisGeNET builder, and the
  same text in the others, with their endpoints and label): hash the edge attributes,
  store the hash among them, and add the edge unless a parallel edge carries that hash.
\<close>

definition add_hashed_edge ::
  "hashfn \<Rightarrow> graph \<Rightarrow> scalar \<Rightarrow> scalar \<Rightarrow> scalar \<Rightarrow> dict \<Rightarrow> error + graph" where
  "add_hashed_edge H g u v lbl edge_attrs =
     (let edge_hash = H (set edge_attrs);
          edge_attrs' = AList.update (SStr ''edge_hash'') (Scalar (SNum edge_hash)) edge_attrs
      in ebind (node_exists edge_hash (get_edge_data g u v)) (\<lambda>found.
           if length found = 0
           then add_edge g u v
                  [(SStr ''label'', Val (Scalar lbl)), (SStr ''attr_dict'', Dict edge_attrs')]
           else Inr g))"

section \<open>Dictionary displays of the builders\<close>

text \<open>
  The builders write their attribute dictionaries as displays whose values are constants,
  record fields (\<^verbatim>\<open>dg["score"]\<close>, a KeyError when the field is absent) or a field with
  the empty string in place of a missing value
  (\<^verbatim>\<open>dg["ei"] if not pd.isna(dg["ei"]) else ""\<close>).
\<close>

datatype item = Const string | Field string | FieldOrEmpty string

fun eval_item :: "annot \<Rightarrow> item \<Rightarrow> error + scalar" where
  "eval_item r (Const s) = Inr (SStr s)"
| "eval_item r (Field f) = getitem r f"
| "eval_item r (FieldOrEmpty f) =
     ebind (getitem r f) (\<lambda>v. if \<not> isna v then getitem r f else Inr (SStr ''''))"

fun display :: "annot \<Rightarrow> (string \<times> item) list \<Rightarrow> dict \<Rightarrow> error + dict" where
  "display r [] acc = Inr acc"
| "display r ((k, i) # rest) acc =
     ebind (eval_item r i) (\<lambda>v. display r rest (AList.update (SStr k) (Scalar v) acc))"

text \<open>
  \<^verbatim>\<open>if not pd.isna(r[test]): d[key] = r[src]\<close>, the optional attributes of the MolMeDB
  and Bgee builders.
\<close>

definition set_if_present :: "annot \<Rightarrow> string \<Rightarrow> string \<Rightarrow> string \<Rightarrow> dict \<Rightarrow> error + dict" where
  "set_if_present r test key src d =
     ebind (getitem r test) (\<lambda>t.
       if \<not> isna t
       then ebind (getitem r src) (\<lambda>v. Inr (AList.update (SStr key) (Scalar v) d))
       else Inr d)"

definition node_kw :: "dict \<Rightarrow> attrs" where
  \<comment> \<open>the keyword arguments \<^verbatim>\<open>attr_dict=node_attrs\<close> of \<^verbatim>\<open>add_node\<close>\<close>
  "node_kw d = [(SStr ''attr_dict'', Dict d)]"

section \<open>The source subgraph builders\<close>

text \<open>
  Each builder is a loop over the annotation records of one gene and one source; its body
  is given first, the builder is the loop. The graph is passed in and returned.
\<close>

definition disgenet_body :: "hashfn \<Rightarrow> scalar \<Rightarrow> graph \<Rightarrow> annot \<Rightarrow> error + graph" where
  "disgenet_body H gene_node_label g dg =
     ebind (getitem dg ''disease_name'') (\<lambda>t.
       if \<not> isna t then
         ebind (getitem dg ''disease_name'') (\<lambda>dg_node_label.
         ebind (display dg
                  [(''source'', Const ''DisGeNET''),
                   (''name'', Field ''disease_name''),
                   (''id'', Field ''diseaseid''),
                   (''labels'', Const ''Disease''),
                   (''disease_id'', Field ''diseaseid''),
                   (''disease_class'', Field ''disease_class''),
                   (''disease_class_name'', Field ''disease_class_name''),
                   (''disease_type'', Field ''disease_type''),
                   (''disease_semantic_type'', Field ''disease_semantic_type'')] [])
           (\<lambda>dg_node_attrs.
         ebind (add_node g dg_node_label (node_kw dg_node_attrs)) (\<lambda>g1.
         ebind (display dg
                  [(''source'', Const ''DisGeNET''),
                   (''label'', Const ''associated_with''),
                   (''score'', Field ''score''),
                   (''year_initial'', FieldOrEmpty ''year_initial''),
                   (''year_final'', FieldOrEmpty ''year_final''),
                   (''ei'', FieldOrEmpty ''ei''),
                   (''el'', FieldOrEmpty ''el'')] [])
           (\<lambda>edge_attrs.
         add_hashed_edge H g1 gene_node_label dg_node_label (SStr ''associated_with'')
           edge_attrs))))
       else Inr g)"

definition add_disgenet_disease_subgraph ::
  "hashfn \<Rightarrow> graph \<Rightarrow> scalar \<Rightarrow> annot list \<Rightarrow> error + graph" where
  "add_disgenet_disease_subgraph H g gene_node_label annot_list =
     for_each (disgenet_body H gene_node_label) g annot_list"

definition location_body :: "hashfn \<Rightarrow> scalar \<Rightarrow> graph \<Rightarrow> annot \<Rightarrow> error + graph" where
  "location_body H gene_node_label g loc =
     ebind (getitem loc ''location'') (\<lambda>t1.
       if isna t1 then Inr g
       else
         ebind (getitem loc ''subcellular_loc'') (\<lambda>t2.
           if isna t2 then Inr g
           else
             ebind (getitem loc ''location'') (\<lambda>loc_node_label.
             ebind (display loc
                      [(''source'', Const ''OpenTargets''),
                       (''name'', Field ''location''),
                       (''id'', Field ''loc_identifier''),
                       (''labels'', Const ''Location''),
                       (''subcellular_loc'', Field ''subcellular_loc'')] [])
               (\<lambda>loc_node_attrs.
             ebind (add_node g loc_node_label (node_kw loc_node_attrs)) (\<lambda>g1.
             ebind (display loc
                      [(''source'', Const ''OpenTargets''),
                       (''label'', Const ''localized_in'')] [])
               (\<lambda>edge_attrs.
             add_hashed_edge H g1 gene_node_label loc_node_label (SStr ''localized_in'')
               edge_attrs))))))"

definition add_opentargets_location_subgraph ::
  "hashfn \<Rightarrow> graph \<Rightarrow> scalar \<Rightarrow> annot list \<Rightarrow> error + graph" where
  "add_opentargets_location_subgraph H g gene_node_label annot_list =
     for_each (location_body H gene_node_label) g annot_list"

text \<open>The GO builder tests no field before it adds the node.\<close>

definition go_body :: "hashfn \<Rightarrow> scalar \<Rightarrow> graph \<Rightarrow> annot \<Rightarrow> error + graph" where
  "go_body H gene_node_label g go =
     ebind (getitem go ''go_name'') (\<lambda>go_node_label.
     ebind (display go
              [(''source'', Const ''OpenTargets''),
               (''name'', Field ''go_name''),
               (''id'', Field ''go_id''),
               (''labels'', Const ''GO'')] [])
       (\<lambda>go_node_attrs.
     ebind (add_node g go_node_label (node_kw go_node_attrs)) (\<lambda>g1.
     ebind (display go
              [(''source'', Const ''OpenTargets''),
               (''label'', Const ''part_of_go'')] [])
       (\<lambda>edge_attrs.
     add_hashed_edge H g1 gene_node_label go_node_label (SStr ''part_of_go'') edge_attrs))))"

definition add_opentargets_go_subgraph ::
  "hashfn \<Rightarrow> graph \<Rightarrow> scalar \<Rightarrow> annot list \<Rightarrow> error + graph" where
  "add_opentargets_go_subgraph H g gene_node_label annot_list =
     for_each (go_body H gene_node_label) g annot_list"

definition pathway_body :: "hashfn \<Rightarrow> scalar \<Rightarrow> graph \<Rightarrow> annot \<Rightarrow> error + graph" where
  "pathway_body H gene_node_label g pathway =
     ebind (getitem pathway ''pathway_id'') (\<lambda>t.
       if \<not> isna t then
         ebind (getitem pathway ''pathway_name'') (\<lambda>pathway_node_label.
         ebind (display pathway
                  [(''source'', Const ''OpenTargets''),
                   (''name'', Field ''pathway_name''),
                   (''id'', Field ''pathway_id''),
                   (''labels'', Const ''Pathway'')] [])
           (\<lambda>pathway_node_attrs.
         ebind (add_node g pathway_node_label (node_kw pathway_node_attrs)) (\<lambda>g1.
         ebind (display pathway
                  [(''source'', Const ''OpenTargets''),
                   (''label'', Const ''part_of_pathway'')] [])
           (\<lambda>edge_attrs.
         add_hashed_edge H g1 gene_node_label pathway_node_label (SStr ''part_of_pathway'')
           edge_attrs))))
       else Inr g)"

definition add_opentargets_pathway_subgraph ::
  "hashfn \<Rightarrow> graph \<Rightarrow> scalar \<Rightarrow> annot list \<Rightarrow> error + graph" where
  "add_opentargets_pathway_subgraph H g gene_node_label annot_list =
     for_each (pathway_body H gene_node_label) g annot_list"

text \<open>The drug builder takes the edge label from the record and points the edge at the gene.\<close>

definition drug_body :: "hashfn \<Rightarrow> scalar \<Rightarrow> graph \<Rightarrow> annot \<Rightarrow> error + graph" where
  "drug_body H gene_node_label g drug =
     ebind (getitem drug ''relation'') (\<lambda>t.
       if \<not> isna t then
         ebind (getitem drug ''drug_name'') (\<lambda>drug_node_label.
         ebind (display drug
                  [(''source'', Const ''OpenTargets''),
                   (''name'', Field ''drug_name''),
                   (''id'', Field ''chembl_id''),
                   (''labels'', Const ''Compound''),
                   (''is_a_drug'', Const ''True'')] [])
           (\<lambda>drug_node_attrs.
         ebind (add_node g drug_node_label (node_kw drug_node_attrs)) (\<lambda>g1.
         ebind (display drug
                  [(''source'', Const ''OpenTargets''),
                   (''label'', Field ''relation'')] [])
           (\<lambda>edge_attrs.
         ebind (getitem drug ''relation'') (\<lambda>relation.
         add_hashed_edge H g1 drug_node_label gene_node_label relation edge_attrs)))))
       else Inr g)"

definition add_opentargets_drug_subgraph ::
  "hashfn \<Rightarrow> graph \<Rightarrow> scalar \<Rightarrow> annot list \<Rightarrow> error + graph" where
  "add_opentargets_drug_subgraph H g gene_node_label annot_list =
     for_each (drug_body H gene_node_label) g annot_list"

definition ot_disease_body :: "hashfn \<Rightarrow> scalar \<Rightarrow> graph \<Rightarrow> annot \<Rightarrow> error + graph" where
  "ot_disease_body H gene_node_label g dg =
     ebind (getitem dg ''disease_name'') (\<lambda>t.
       if \<not> isna t then
         ebind (getitem dg ''disease_name'') (\<lambda>dg_node_label.
         ebind (display dg
                  [(''source'', Const ''OpenTargets''),
                   (''name'', Field ''disease_name''),
                   (''id'', Field ''disease_id''),
                   (''labels'', Const ''Disease''),
                   (''therapeutic_areas'', Field ''therapeutic_areas'')] [])
           (\<lambda>dg_node_attrs.
         ebind (add_node g dg_node_label (node_kw dg_node_attrs)) (\<lambda>g1.
         ebind (display dg
                  [(''source'', Const ''OpenTargets''),
                   (''label'', Const ''associated_with'')] [])
           (\<lambda>edge_attrs.
         add_hashed_edge H g1 gene_node_label dg_node_label (SStr ''associated_with'')
           edge_attrs))))
       else Inr g)"

definition add_opentargets_disease_subgraph ::
  "hashfn \<Rightarrow> graph \<Rightarrow> scalar \<Rightarrow> annot list \<Rightarrow> error + graph" where
  "add_opentargets_disease_subgraph H g gene_node_label annot_list =
     for_each (ot_disease_body H gene_node_label) g annot_list"

definition wikipathways_body :: "hashfn \<Rightarrow> scalar \<Rightarrow> graph \<Rightarrow> annot \<Rightarrow> error + graph" where
  "wikipathways_body H gene_node_label g pathway =
     ebind (getitem pathway ''pathwayLabel'') (\<lambda>t.
       if \<not> isna t then
         ebind (getitem pathway ''pathwayLabel'') (\<lambda>pathway_node_label.
         ebind (display pathway
                  [(''source'', Const ''WikiPathways''),
                   (''name'', Field ''pathwayLabel''),
                   (''id'', Field ''pathwayId''),
                   (''labels'', Const ''Pathway''),
                   (''gene_count'', Field ''pathwayGeneCount'')] [])
           (\<lambda>pathway_node_attrs.
         ebind (add_node g pathway_node_label (node_kw pathway_node_attrs)) (\<lambda>g1.
         ebind (display pathway
                  [(''source'', Const ''WikiPathways''),
                   (''label'', Const ''part_of_pathway'')] [])
           (\<lambda>edge_attrs.
         add_hashed_edge H g1 gene_node_label pathway_node_label (SStr ''part_of_pathway'')
           edge_attrs))))
       else Inr g)"

definition add_wikipathways_subgraph ::
  "hashfn \<Rightarrow> graph \<Rightarrow> scalar \<Rightarrow> annot list \<Rightarrow> error + graph" where
  "add_wikipathways_subgraph H g gene_node_label annot_list =
     for_each (wikipathways_body H gene_node_label) g annot_list"

text \<open>The interaction builder adds no node of its own before the edge.\<close>

definition ppi_body :: "hashfn \<Rightarrow> scalar \<Rightarrow> graph \<Rightarrow> annot \<Rightarrow> error + graph" where
  "ppi_body H gene_node_label g ppi =
     ebind (display ppi
              [(''source'', Const ''STRING''),
               (''label'', Const ''interacts_with''),
               (''score'', Field ''score'')] [])
       (\<lambda>edge_attrs.
     ebind (getitem ppi ''stringdb_link_to'') (\<lambda>link_to.
     add_hashed_edge H g gene_node_label link_to (SStr ''interacts_with'') edge_attrs))"

definition add_ppi_subgraph ::
  "hashfn \<Rightarrow> graph \<Rightarrow> scalar \<Rightarrow> annot list \<Rightarrow> error + graph" where
  "add_ppi_subgraph H g gene_node_label annot_list =
     for_each (ppi_body H gene_node_label) g annot_list"

text \<open>
  The MolMeDB builder writes the two reference attributes into the node dictionary after
  \<^verbatim>\<open>add_node\<close> has stored that same dictionary object in the node, so the node sees
  them: the second \<open>add_node\<close> below stores the extended dictionary in the node, which
  exists by then.
\<close>

definition molmedb_body :: "hashfn \<Rightarrow> scalar \<Rightarrow> graph \<Rightarrow> annot \<Rightarrow> error + graph" where
  "molmedb_body H gene_node_label g inhibitor =
     ebind (getitem inhibitor ''InChIKey'') (\<lambda>t.
       if \<not> isna t then
         ebind (getitem inhibitor ''label'') (\<lambda>inhibitor_node_label.
         ebind (display inhibitor
                  [(''source'', Const ''MolMeDB''),
                   (''id'', Field ''molmedb_id''),
                   (''name'', Field ''label''),
                   (''InChIKey'', Field ''InChIKey''),
                   (''MolMeDB_id'', Field ''molmedb_id''),
                   (''labels'', Const ''Compound'')] [])
           (\<lambda>a0.
         ebind (set_if_present inhibitor ''SMILES'' ''SMILES'' ''SMILES'' a0) (\<lambda>a1.
         ebind (set_if_present inhibitor ''pubchem_compound_id'' ''PubChem_compound_id''
                  ''pubchem_compound_id'' a1) (\<lambda>a2.
         ebind (set_if_present inhibitor ''chebi_id'' ''ChEBI_id'' ''chebi_id'' a2) (\<lambda>a3.
         ebind (set_if_present inhibitor ''drugbank_id'' ''DrugBank_id'' ''drugbank_id'' a3)
           (\<lambda>a4.
         ebind (add_node g inhibitor_node_label (node_kw a4)) (\<lambda>g1.
         ebind (display inhibitor
                  [(''source'', Const ''MolMeDB''),
                   (''label'', Const ''inhibits'')] [])
           (\<lambda>edge_attrs.
         ebind (set_if_present inhibitor ''source_doi'' ''reference_doi'' ''source_doi'' a4)
           (\<lambda>a5.
         ebind (set_if_present inhibitor ''source_pmid'' ''reference_pmid'' ''source_pmid'' a5)
           (\<lambda>a6.
         ebind (add_node g1 inhibitor_node_label (node_kw a6)) (\<lambda>g2.
         add_hashed_edge H g2 gene_node_label inhibitor_node_label (SStr ''inhibits'')
           edge_attrs)))))))))))
       else Inr g)"

definition add_molmedb_gene_inhibitor ::
  "hashfn \<Rightarrow> graph \<Rightarrow> scalar \<Rightarrow> annot list \<Rightarrow> error + graph" where
  "add_molmedb_gene_inhibitor H g gene_node_label annot_list =
     for_each (molmedb_body H gene_node_label) g annot_list"

text \<open>
  The Bgee builder: the fourth optional attribute is guarded by \<^verbatim>\<open>confidence_level\<close>
  and assigned from \<^verbatim>\<open>annot["drugbank_id"]\<close> (line 395).
\<close>

definition bgee_body :: "hashfn \<Rightarrow> scalar \<Rightarrow> graph \<Rightarrow> annot \<Rightarrow> error + graph" where
  "bgee_body H gene_node_label g annot =
     ebind (getitem annot ''anatomical_entity_name'') (\<lambda>t.
       if \<not> isna t then
         ebind (getitem annot ''anatomical_entity_name'') (\<lambda>annot_node_label.
         ebind (display annot
                  [(''source'', Const ''Bgee''),
                   (''name'', Field ''anatomical_entity_name''),
                   (''id'', Field ''anatomical_entity_id''),
                   (''labels'', Const ''Anatomical Entity''),
                   (''anatomical_entity_id'', Field ''anatomical_entity_id''),
                   (''anatomical_entity_name'', Field ''anatomical_entity_name'')] [])
           (\<lambda>a0.
         ebind (set_if_present annot ''developmental_stage_id'' ''developmental_stage_id''
                  ''developmental_stage_id'' a0) (\<lambda>a1.
         ebind (set_if_present annot ''developmental_stage_name'' ''developmental_stage_name''
                  ''developmental_stage_name'' a1) (\<lambda>a2.
         ebind (set_if_present annot ''expression_level'' ''expression_level''
                  ''expression_level'' a2) (\<lambda>a3.
         ebind (set_if_present annot ''confidence_level'' ''confidence_level''
                  ''drugbank_id'' a3) (\<lambda>annot_node_attrs.
         ebind (add_node g annot_node_label (node_kw annot_node_attrs)) (\<lambda>g1.
         ebind (display annot
                  [(''source'', Const ''Bgee''),
                   (''label'', Const ''expressed_in'')] [])
           (\<lambda>edge_attrs.
         add_hashed_edge H g1 gene_node_label annot_node_label (SStr ''expressed_in'')
           edge_attrs))))))))
       else Inr g)"

definition add_bgee_subgraph ::
  "hashfn \<Rightarrow> graph \<Rightarrow> scalar \<Rightarrow> annot list \<Rightarrow> error + graph" where
  "add_bgee_subgraph H g gene_node_label annot_list =
     for_each (bgee_body H gene_node_label) g annot_list"

definition minerva_body :: "hashfn \<Rightarrow> scalar \<Rightarrow> graph \<Rightarrow> annot \<Rightarrow> error + graph" where
  "minerva_body H gene_node_label g pathway =
     ebind (getitem pathway ''pathwayLabel'') (\<lambda>t.
       if \<not> isna t then
         ebind (getitem pathway ''pathwayLabel'') (\<lambda>pathway_node_label.
         ebind (display pathway
                  [(''source'', Const ''MINERVA''),
                   (''name'', Field ''pathwayLabel''),
                   (''id'', Field ''pathwayId''),
                   (''labels'', Const ''pathway''),
                   (''gene_count'', Field ''pathwayGeneCount'')] [])
           (\<lambda>pathway_node_attrs.
         ebind (add_node g pathway_node_label (node_kw pathway_node_attrs)) (\<lambda>g1.
         ebind (display pathway
                  [(''source'', Const ''MINERVA''),
                   (''type'', Const ''part_of_pathway'')] [])
           (\<lambda>edge_attrs.
         add_hashed_edge H g1 gene_node_label pathway_node_label (SStr ''part_of_pathway'')
           edge_attrs))))
       else Inr g)"

definition add_minerva_subgraph ::
  "hashfn \<Rightarrow> graph \<Rightarrow> scalar \<Rightarrow> annot list \<Rightarrow> error + graph" where
  "add_minerva_subgraph H g gene_node_label annot_list =
     for_each (minerva_body H gene_node_label) g annot_list"

text \<open>
  The drug-disease builder hashes nothing against the graph: it asks \<^verbatim>\<open>has_edge\<close>. Its
  gene label is the raw cell \<^verbatim>\<open>row['identifier']\<close>; a list there is unhashable, which
  \<^verbatim>\<open>has_edge\<close> meets when the disease is a node already and \<^verbatim>\<open>add_edge\<close> after it
  has created the disease node otherwise.
\<close>

definition drug_disease_body :: "hashfn \<Rightarrow> cell \<Rightarrow> graph \<Rightarrow> annot \<Rightarrow> error + graph" where
  "drug_disease_body H gene_node_label_2 g ddi =
     (let edge_attrs =
            [(SStr ''source'', Scalar (SStr ''OpenTargets'')),
             (SStr ''type'', Scalar (SStr ''treated_with''))];
          edge_hash = H (set edge_attrs);
          edge_attrs' = AList.update (SStr ''edge_hash'') (Scalar (SNum edge_hash)) edge_attrs
      in ebind (getitem ddi ''umls'') (\<lambda>umls.
           case gene_node_label_2 of
             Scalar gene \<Rightarrow>
               if \<not> has_edge g umls gene
               then add_edge g umls gene
                      [(SStr ''label'', Val (Scalar (SStr ''treated_with''))),
                       (SStr ''attr_dict'', Dict edge_attrs')]
               else Inr g
           | Records l \<Rightarrow>
               if has_node g umls then Inl TypeError
               else if umls = SNone then Inl ValueError
               else Inl TypeError))"

definition add_drug_disease_subgraph ::
  "hashfn \<Rightarrow> graph \<Rightarrow> cell \<Rightarrow> annot list \<Rightarrow> error + graph" where
  "add_drug_disease_subgraph H g gene_node_label_2 annot_list =
     for_each (drug_disease_body H gene_node_label_2) g annot_list"

section \<open>The graph assembler\<close>

definition dea_columns :: "dataframe \<Rightarrow> string list" where
  "dea_columns fuse_df = filter (\<lambda>c. suffix ''_dea'' c) (columns fuse_df)"

definition func_dict ::
  "(string \<times> (hashfn \<Rightarrow> graph \<Rightarrow> scalar \<Rightarrow> annot list \<Rightarrow> error + graph)) list" where
  "func_dict =
     [(''DisGeNET'', add_disgenet_disease_subgraph),
      (''OpenTargets_Location'', add_opentargets_location_subgraph),
      (''GO_Process'', add_opentargets_go_subgraph),
      (''Reactome_Pathways'', add_opentargets_pathway_subgraph),
      (''ChEMBL_Drugs'', add_opentargets_drug_subgraph),
      (''OpenTargets_Diseases'', add_opentargets_disease_subgraph),
      (''WikiPathways'', add_wikipathways_subgraph),
      (''MINERVA'', add_minerva_subgraph),
      (''transporter_inhibitor'', add_molmedb_gene_inhibitor),
      (''Bgee'', add_bgee_subgraph)]"

definition hashable :: "cell \<Rightarrow> error + scalar" where
  \<comment> \<open>a cell used as a dictionary key or as a node: a list is unhashable\<close>
  "hashable c = (case c of Scalar s \<Rightarrow> Inr s | Records l \<Rightarrow> Inl TypeError)"

text \<open>
  \<^verbatim>\<open>json.loads(json.dumps(c))\<close>. The cells of the model are the Python values that
  \<^verbatim>\<open>json.dumps\<close> accepts: \<^verbatim>\<open>None\<close>, the float NaN, strings, Python integers and
  lists of dictionaries of these with string keys, and each of them is read back as itself.
  Two things of the interpreter are outside the model: a cell that \<^verbatim>\<open>json.dumps\<close>
  refuses with a TypeError (a numpy integer of an all-integer column), and the identity of
  the NaN object, which after \<^verbatim>\<open>json.loads\<close> is the NaN of the json module and not the
  one of the table. Nothing proved below for all tables rests on either.
\<close>

definition json_roundtrip :: "cell \<Rightarrow> cell" where
  "json_roundtrip c = c"

definition gene_node_attrs :: "string list \<Rightarrow> row \<Rightarrow> error + dict" where
  "gene_node_attrs dea row =
     ebind (getitem row ''identifier'') (\<lambda>ident.
     ebind (getitem row ''target'') (\<lambda>target.
     ebind (getitem row ''target.source'') (\<lambda>ns.
     ebind (getitem row ''target'') (\<lambda>target2.
     ebind (hashable ns) (\<lambda>k.
       for_each
         (\<lambda>d c. ebind (getitem row c) (\<lambda>v.
                   Inr (AList.update (SStr (take (length c - 4) c)) v d)))
         (AList.update k target2
            [(SStr ''source'', Scalar (SStr ''BridgeDB'')),
             (SStr ''labels'', ident),
             (SStr ''id'', target),
             (SStr ''node_type'', Scalar (SStr ''Gene''))])
         dea)))))"

definition as_list :: "cell \<Rightarrow> annot list" where
  \<comment> \<open>\<^verbatim>\<open>if not isinstance(annot_list, list): annot_list = []\<close>\<close>
  "as_list c = (case c of Records l \<Rightarrow> l | Scalar s \<Rightarrow> [])"

definition dispatch ::
  "hashfn \<Rightarrow> scalar \<Rightarrow> row \<Rightarrow> graph
     \<Rightarrow> string \<times> (hashfn \<Rightarrow> graph \<Rightarrow> scalar \<Rightarrow> annot list \<Rightarrow> error + graph)
     \<Rightarrow> error + graph" where
  "dispatch H gene_node_label row g entry =
     (if fst entry \<in> set (map fst row)
      then ebind (getitem row (fst entry)) (\<lambda>c.
             snd entry H g gene_node_label (as_list (json_roundtrip c)))
      else Inr g)"

text \<open>
  The body of the row loop. Its state is the graph together with the loop variables
  \<^verbatim>\<open>row\<close> and \<^verbatim>\<open>gene_node_label\<close>, which the code reads again after the loop: they are
  unbound until a first row has been processed.
\<close>

type_synonym loop_state = "graph \<times> (row \<times> scalar) option"

definition row_body :: "hashfn \<Rightarrow> string list \<Rightarrow> loop_state \<Rightarrow> row \<Rightarrow> error + loop_state" where
  "row_body H dea st row =
     ebind (getitem row ''identifier'') (\<lambda>ident.
     ebind (gene_node_attrs dea row) (\<lambda>attrs.
     ebind (hashable ident) (\<lambda>gene_node_label.
     ebind (add_node (fst st) gene_node_label (node_kw attrs)) (\<lambda>g1.
     ebind (for_each (dispatch H gene_node_label row) g1 func_dict) (\<lambda>g2.
       Inr (g2, Some (row, gene_node_label)))))))"

text \<open>
  What the two later passes iterate. The interaction pass replaces only \<^verbatim>\<open>None\<close> by the
  empty list, the drug-disease pass only a float. A number or the other missing value is
  not iterable; a string is iterated by character, and the builder then subscripts a
  character with a field name, so only the empty string passes.
\<close>

definition ppi_records :: "cell \<Rightarrow> error + annot list" where
  "ppi_records c =
     (case c of
        Records l \<Rightarrow> Inr l
      | Scalar SNone \<Rightarrow> Inr []
      | Scalar SNaN \<Rightarrow> Inl TypeError
      | Scalar (SNum n) \<Rightarrow> Inl TypeError
      | Scalar (SStr s) \<Rightarrow> if s = [] then Inr [] else Inl TypeError)"

definition ddi_records :: "cell \<Rightarrow> error + annot list" where
  "ddi_records c =
     (case c of
        Records l \<Rightarrow> Inr l
      | Scalar SNaN \<Rightarrow> Inr []
      | Scalar SNone \<Rightarrow> Inl TypeError
      | Scalar (SNum n) \<Rightarrow> Inl TypeError
      | Scalar (SStr s) \<Rightarrow> if s = [] then Inr [] else Inl TypeError)"

definition ppi_pass_body :: "hashfn \<Rightarrow> scalar \<Rightarrow> graph \<Rightarrow> row \<Rightarrow> error + graph" where
  "ppi_pass_body H gene_node_label g row =
     ebind (getitem row ''stringdb'') (\<lambda>c.
     ebind (ppi_records (json_roundtrip c)) (\<lambda>ppi_list.
       add_ppi_subgraph H g gene_node_label ppi_list))"

definition ddi_pass_body :: "hashfn \<Rightarrow> graph \<Rightarrow> row \<Rightarrow> error + graph" where
  "ddi_pass_body H g row =
     ebind (getitem row ''identifier'') (\<lambda>gene_node_label_2.
     ebind (getitem row ''drug_diseases'') (\<lambda>c.
     ebind (ddi_records (json_roundtrip c)) (\<lambda>ddi_list.
       add_drug_disease_subgraph H g gene_node_label_2 ddi_list)))"

text \<open>
  \<^verbatim>\<open>drug_disease[['identifier','drug_diseases']]\<close> and \<^verbatim>\<open>pd.concat(..., ignore_index=True)\<close>:
  the rows of both tables over the union of their columns, NaN where a table has no
  such column.
\<close>

definition reindex :: "string list \<Rightarrow> row \<Rightarrow> row" where
  "reindex cols r =
     map (\<lambda>c. (c, case map_of r c of Some v \<Rightarrow> v | None \<Rightarrow> Scalar SNaN)) cols"

definition select_columns :: "dataframe \<Rightarrow> string list \<Rightarrow> error + dataframe" where
  "select_columns df cols =
     (if set cols \<subseteq> set (columns df)
      then Inr \<lparr>columns = cols, rows = map (reindex cols) (rows df)\<rparr>
      else Inl KeyError)"

definition pd_concat :: "dataframe \<Rightarrow> dataframe \<Rightarrow> dataframe" where
  "pd_concat a b =
     (let cols = columns a @ filter (\<lambda>c. c \<notin> set (columns a)) (columns b)
      in \<lparr>columns = cols, rows = map (reindex cols) (rows a @ rows b)\<rparr>)"

text \<open>
  Lines 484-544: the row loop and the two later passes. After the row loop \<^verbatim>\<open>row\<close> is
  the last row of the table; the interaction pass binds it again, row by row of the same
  table, so it is the last row of the input table at both tests \<^verbatim>\<open>in row\<close>, also at
  the second one, which comes after \<^verbatim>\<open>fuse_df\<close> has been replaced by the concatenation.
\<close>

definition build_graph :: "hashfn \<Rightarrow> dataframe \<Rightarrow> dataframe option \<Rightarrow> error + graph" where
  "build_graph H fuse_df drug_disease =
     ebind (for_each (row_body H (dea_columns fuse_df)) (empty_graph, None) (rows fuse_df))
       (\<lambda>st.
     case snd st of
       None \<Rightarrow> Inl NameError
     | Some (row, gene_node_label) \<Rightarrow>
         ebind (if ''stringdb'' \<in> set (map fst row)
                then for_each (ppi_pass_body H gene_node_label) (fst st) (rows fuse_df)
                else Inr (fst st)) (\<lambda>g1.
         case drug_disease of
           None \<Rightarrow> Inr g1
         | Some dd \<Rightarrow>
             ebind (select_columns dd [''identifier'', ''drug_diseases'']) (\<lambda>sub.
               let fuse_df2 = pd_concat fuse_df sub
               in if ''drug_diseases'' \<in> set (map fst row)
                  then for_each (ddi_pass_body H) g1 (rows fuse_df2)
                  else Inr g1)))"

section \<open>Finalization\<close>

fun map_result :: "('a \<Rightarrow> error + 'b) \<Rightarrow> 'a list \<Rightarrow> error + 'b list" where
  "map_result f [] = Inr []"
| "map_result f (x # xs) =
     ebind (f x) (\<lambda>y. ebind (map_result f xs) (\<lambda>ys. Inr (y # ys)))"

definition promote_node :: "dict \<Rightarrow> attrs \<Rightarrow> attrs" where
  "promote_node d a =
     fold (\<lambda>(k, v) a. if v \<noteq> Scalar SNone then AList.update k (Val v) a else a) d a"

definition finalize_node :: "scalar \<times> attrs \<Rightarrow> error + scalar \<times> attrs" where
  "finalize_node na =
     (case map_of (snd na) (SStr ''attr_dict'') of
        None \<Rightarrow> Inl KeyError
      | Some (Val c) \<Rightarrow> Inl AttributeError
      | Some (Dict d) \<Rightarrow>
          Inr (fst na, AList.delete (SStr ''attr_dict'') (promote_node d (snd na))))"

definition promote_edge :: "dict \<Rightarrow> attrs \<Rightarrow> attrs" where
  "promote_edge d a =
     fold (\<lambda>(x, y) a.
             if y \<noteq> Scalar SNone \<and> x \<noteq> SStr ''edge_hash'' then AList.update x (Val y) a
             else a) d a"

definition finalize_edge ::
  "scalar \<times> scalar \<times> attrs \<Rightarrow> error + scalar \<times> scalar \<times> attrs" where
  "finalize_edge e =
     (case map_of (snd (snd e)) (SStr ''attr_dict'') of
        None \<Rightarrow> Inr e
      | Some (Val c) \<Rightarrow> Inl AttributeError
      | Some (Dict d) \<Rightarrow>
          Inr (fst e, fst (snd e),
               AList.delete (SStr ''attr_dict'') (promote_edge d (snd (snd e)))))"

definition finalize :: "graph \<Rightarrow> error + graph" where
  \<comment> \<open>lines 546-559\<close>
  "finalize g =
     ebind (map_result finalize_node (nodes g)) (\<lambda>ns.
     ebind (map_result finalize_edge (edges g)) (\<lambda>es.
       Inr \<lparr>nodes = ns, edges = es\<rparr>))"

definition generate_networkx_graph ::
  "hashfn \<Rightarrow> dataframe \<Rightarrow> dataframe option \<Rightarrow> error + graph" where
  "generate_networkx_graph H fuse_df drug_disease =
     ebind (build_graph H fuse_df drug_disease) finalize"


section \<open>Concrete inputs\<close>

text \<open>
  Tables and records at which the generator is evaluated below. The hash function there
  is the constant one, which is a hash function like any other.
\<close>

definition gene_row :: "string \<Rightarrow> string \<Rightarrow> string \<Rightarrow> row" where
  "gene_row ident target ns =
     [(''identifier'', Scalar (SStr ident)),
      (''target'', Scalar (SStr target)),
      (''target.source'', Scalar (SStr ns))]"

definition gene_only_graph :: graph where
  "gene_only_graph =
     \<lparr>nodes = [(SStr ''G1'', node_kw [(SStr ''source'', Scalar (SStr ''BridgeDB''))])],
      edges = []\<rparr>"

definition ppi_table :: dataframe where
  \<comment> \<open>two genes; the first interacts with the second\<close>
  "ppi_table =
     \<lparr>columns = [''identifier'', ''target'', ''target.source'', ''stringdb''],
      rows =
        [gene_row ''G1'' ''T1'' ''Ensembl''
           @ [(''stringdb'', Records [[(''stringdb_link_to'', SStr ''G2''), (''score'', SNum 1)]])],
         gene_row ''G2'' ''T2'' ''Ensembl'' @ [(''stringdb'', Records [])]]\<rparr>"

definition two_gene_table :: dataframe where
  "two_gene_table =
     \<lparr>columns = [''identifier'', ''target'', ''target.source''],
      rows = [gene_row ''G1'' ''T1'' ''Ensembl'', gene_row ''G2'' ''T2'' ''Ensembl'']\<rparr>"

definition drug_disease_table :: dataframe where
  \<comment> \<open>one treatment relation of gene G1, whose disease identifier is a node of the graph\<close>
  "drug_disease_table =
     \<lparr>columns = [''identifier'', ''drug_diseases''],
      rows = [[(''identifier'', Scalar (SStr ''G1'')),
               (''drug_diseases'', Records [[(''umls'', SStr ''G2'')]])]]\<rparr>"

definition bgee_record :: annot where
  "bgee_record =
     [(''anatomical_entity_name'', SStr ''liver''),
      (''anatomical_entity_id'', SStr ''UBERON:0002107''),
      (''developmental_stage_id'', SNone),
      (''developmental_stage_name'', SNone),
      (''expression_level'', SNone),
      (''confidence_level'', SStr ''high'')]"

definition regene_table :: dataframe where
  \<comment> \<open>the same gene in two rows, mapped to two namespaces\<close>
  "regene_table =
     \<lparr>columns = [''identifier'', ''target'', ''target.source''],
      rows = [gene_row ''G1'' ''T1'' ''Ensembl'', gene_row ''G1'' ''T2'' ''NCBI'']\<rparr>"

definition nan_interaction_table :: dataframe where
  "nan_interaction_table =
     \<lparr>columns = [''identifier'', ''target'', ''target.source'', ''stringdb''],
      rows = [gene_row ''G1'' ''T1'' ''Ensembl'' @ [(''stringdb'', Scalar SNaN)]]\<rparr>"

definition nan_registry_table :: dataframe where
  "nan_registry_table =
     \<lparr>columns = [''identifier'', ''target'', ''target.source'', ''DisGeNET''],
      rows = [gene_row ''G1'' ''T1'' ''Ensembl'' @ [(''DisGeNET'', Scalar SNaN)]]\<rparr>"

definition none_drug_disease_table :: dataframe where
  "none_drug_disease_table =
     \<lparr>columns = [''identifier'', ''target'', ''target.source'', ''drug_diseases''],
      rows = [gene_row ''G1'' ''T1'' ''Ensembl'' @ [(''drug_diseases'', Scalar SNone)]]\<rparr>"



text \<open>The edge attributes the drug-disease builder stores.\<close>

definition treated_with_attrs :: "hashfn \<Rightarrow> attrs" where
  "treated_with_attrs H =
     [(SStr ''label'', Val (Scalar (SStr ''treated_with''))),
      (SStr ''attr_dict'',
       Dict [(SStr ''source'', Scalar (SStr ''OpenTargets'')),
             (SStr ''type'', Scalar (SStr ''treated_with'')),
             (SStr ''edge_hash'',
              Scalar (SNum (H {(SStr ''source'', Scalar (SStr ''OpenTargets'')),
                               (SStr ''type'', Scalar (SStr ''treated_with''))})))])]"



section \<open>Auxiliary predicates of the verification\<close>

text \<open>The result is not the exception raised by reading an unbound local variable.\<close>

definition no_name_error :: "error + 'a \<Rightarrow> bool" where
  "no_name_error m = (m \<noteq> Inl NameError)"

text \<open>The node carries the container \<open>d\<close>.\<close>

definition node_stored :: "graph \<Rightarrow> scalar \<Rightarrow> dict \<Rightarrow> bool" where
  "node_stored g n d =
     (case map_of (nodes g) n of
        None \<Rightarrow> False
      | Some a \<Rightarrow> map_of a (SStr ''attr_dict'') = Some (Dict d))"



text \<open>The node has the container \<open>d\<close> and no other attribute.\<close>

definition container_only :: "graph \<Rightarrow> scalar \<Rightarrow> dict \<Rightarrow> bool" where
  "container_only g n d =
     (case map_of (nodes g) n of
        None \<Rightarrow> False
      | Some a \<Rightarrow> map_of a = [SStr ''attr_dict'' \<mapsto> Dict d])"

section \<open>Basic facts about the error monad and the loops\<close>

lemma ebind_simps [simp]: "ebind (Inl e) f = Inl e" "ebind (Inr x) f = f x"
  by (simp_all add: ebind_def)

lemma ebind_eq_Inr: "ebind m f = Inr y \<longleftrightarrow> (\<exists>x. m = Inr x \<and> f x = Inr y)"
  by (cases m) simp_all

lemma ebind_eq_Inl: "ebind m f = Inl e \<longleftrightarrow> m = Inl e \<or> (\<exists>x. m = Inr x \<and> f x = Inl e)"
  by (cases m) simp_all

lemma for_each_invariant:
  "for_each body s xs = Inr s' \<Longrightarrow> P s \<Longrightarrow>
   (\<And>t x t'. P t \<Longrightarrow> x \<in> set xs \<Longrightarrow> body t x = Inr t' \<Longrightarrow> P t') \<Longrightarrow> P s'"
proof (induction xs arbitrary: s)
  case Nil
  then show ?case by simp
next
  case (Cons x xs)
  from Cons.prems(1) obtain t where t: "body s x = Inr t" and r: "for_each body t xs = Inr s'"
    by (auto simp: ebind_eq_Inr)
  have pt: "P t" using Cons.prems(3) [of s x t] Cons.prems(2) t by simp
  show ?case
  proof (rule Cons.IH [OF r pt])
    fix u y u'
    assume "P u" "y \<in> set xs" "body u y = Inr u'"
    then show "P u'" using Cons.prems(3) [of u y u'] by simp
  qed
qed

lemma nn_Inr [simp]: "no_name_error (Inr x)" by (simp add: no_name_error_def)
lemma nn_Inl [simp]: "no_name_error (Inl e) \<longleftrightarrow> e \<noteq> NameError" by (simp add: no_name_error_def)

lemma nn_ebind: "no_name_error m \<Longrightarrow> (\<And>x. no_name_error (f x)) \<Longrightarrow> no_name_error (ebind m f)"
  by (cases m) (simp_all add: no_name_error_def)

lemma nn_if: "no_name_error a \<Longrightarrow> no_name_error b \<Longrightarrow> no_name_error (if c then a else b)"
  by simp

lemma nn_for_each: "(\<And>s x. no_name_error (body s x)) \<Longrightarrow> no_name_error (for_each body s xs)"
  by (induction xs arbitrary: s) (auto intro: nn_ebind)

lemma nn_getitem: "no_name_error (getitem d k)"
  by (simp add: getitem_def split: option.splits)

lemma nn_eval_item: "no_name_error (eval_item r i)"
  by (cases i) (auto intro!: nn_ebind nn_getitem)

lemma nn_display: "no_name_error (display r is acc)"
  by (induction r "is" acc rule: display.induct) (auto intro!: nn_ebind nn_eval_item)

lemma nn_set_if_present: "no_name_error (set_if_present r t k s d)"
  by (auto simp: set_if_present_def intro!: nn_ebind nn_getitem)

lemma nn_add_node: "no_name_error (add_node g n a)"
  by (simp add: add_node_def split: option.splits)

lemma nn_ensure_node: "no_name_error (ensure_node g n)"
  by (simp add: ensure_node_def)

lemma nn_add_edge: "no_name_error (add_edge g u v a)"
  by (auto simp: add_edge_def intro!: nn_ebind nn_ensure_node)

lemma nn_stored_hash: "no_name_error (stored_hash y)"
  by (simp add: stored_hash_def split: option.splits attr.splits)

lemma nn_node_exists: "no_name_error (node_exists h ys)"
  by (induction h ys rule: node_exists.induct) (auto intro!: nn_ebind nn_stored_hash)

lemma nn_add_hashed_edge: "no_name_error (add_hashed_edge H g u v l a)"
  by (auto simp: add_hashed_edge_def Let_def intro!: nn_ebind nn_node_exists nn_add_edge)

lemmas nn_intros = nn_ebind nn_getitem nn_display nn_set_if_present nn_add_node nn_add_edge
  nn_add_hashed_edge nn_for_each nn_if

lemma nn_disgenet: "no_name_error (add_disgenet_disease_subgraph H g l a)"
  unfolding add_disgenet_disease_subgraph_def disgenet_body_def by (intro nn_intros nn_Inr)

lemma nn_location: "no_name_error (add_opentargets_location_subgraph H g l a)"
  unfolding add_opentargets_location_subgraph_def location_body_def by (intro nn_intros nn_Inr)

lemma nn_go: "no_name_error (add_opentargets_go_subgraph H g l a)"
  unfolding add_opentargets_go_subgraph_def go_body_def by (intro nn_intros nn_Inr)

lemma nn_pathway: "no_name_error (add_opentargets_pathway_subgraph H g l a)"
  unfolding add_opentargets_pathway_subgraph_def pathway_body_def by (intro nn_intros nn_Inr)

lemma nn_drug: "no_name_error (add_opentargets_drug_subgraph H g l a)"
  unfolding add_opentargets_drug_subgraph_def drug_body_def by (intro nn_intros nn_Inr)

lemma nn_ot_disease: "no_name_error (add_opentargets_disease_subgraph H g l a)"
  unfolding add_opentargets_disease_subgraph_def ot_disease_body_def by (intro nn_intros nn_Inr)

lemma nn_wikipathways: "no_name_error (add_wikipathways_subgraph H g l a)"
  unfolding add_wikipathways_subgraph_def wikipathways_body_def by (intro nn_intros nn_Inr)

lemma nn_minerva: "no_name_error (add_minerva_subgraph H g l a)"
  unfolding add_minerva_subgraph_def minerva_body_def by (intro nn_intros nn_Inr)

lemma nn_molmedb: "no_name_error (add_molmedb_gene_inhibitor H g l a)"
  unfolding add_molmedb_gene_inhibitor_def molmedb_body_def by (intro nn_intros nn_Inr)

lemma nn_bgee: "no_name_error (add_bgee_subgraph H g l a)"
  unfolding add_bgee_subgraph_def bgee_body_def by (intro nn_intros nn_Inr)

lemma nn_ppi: "no_name_error (add_ppi_subgraph H g l a)"
  unfolding add_ppi_subgraph_def ppi_body_def by (intro nn_intros nn_Inr)

lemma nn_drug_disease: "no_name_error (add_drug_disease_subgraph H g l a)"
  unfolding add_drug_disease_subgraph_def drug_disease_body_def Let_def
  by (intro nn_intros) (auto split: cell.splits intro!: nn_add_edge)

lemma nn_func_dict: "e \<in> set func_dict \<Longrightarrow> no_name_error (snd e H g l a)"
  by (auto simp: func_dict_def nn_disgenet nn_location nn_go nn_pathway nn_drug nn_ot_disease
      nn_wikipathways nn_minerva nn_molmedb nn_bgee)

section \<open>The unbound loop variable on an empty table\<close>

lemma nn_hashable: "no_name_error (hashable c)"
  by (simp add: hashable_def split: cell.splits)

lemma nn_gene_node_attrs: "no_name_error (gene_node_attrs dea row)"
  unfolding gene_node_attrs_def by (intro nn_intros nn_hashable nn_Inr)

lemma nn_dispatch: "e \<in> set func_dict \<Longrightarrow> no_name_error (dispatch H l row g e)"
  unfolding dispatch_def by (intro nn_intros nn_Inr nn_func_dict)

lemma nn_for_each_set:
  "(\<And>s x. x \<in> set xs \<Longrightarrow> no_name_error (body s x)) \<Longrightarrow> no_name_error (for_each body s xs)"
  by (induction xs arbitrary: s) (auto intro: nn_ebind)

lemma nn_row_body: "no_name_error (row_body H dea st row)"
  unfolding row_body_def
  by (intro nn_ebind nn_getitem nn_gene_node_attrs nn_hashable nn_add_node nn_for_each_set
      nn_dispatch nn_Inr) assumption

lemma nn_ppi_records: "no_name_error (ppi_records c)"
  by (simp add: ppi_records_def split: cell.splits scalar.splits)

lemma nn_ddi_records: "no_name_error (ddi_records c)"
  by (simp add: ddi_records_def split: cell.splits scalar.splits)

lemma nn_ppi_pass_body: "no_name_error (ppi_pass_body H l g row)"
  unfolding ppi_pass_body_def by (intro nn_ebind nn_getitem nn_ppi_records nn_ppi)

lemma nn_ddi_pass_body: "no_name_error (ddi_pass_body H g row)"
  unfolding ddi_pass_body_def by (intro nn_ebind nn_getitem nn_ddi_records nn_drug_disease)

lemma nn_select_columns: "no_name_error (select_columns df cs)"
  by (simp add: select_columns_def)

lemma nn_map_result: "(\<And>x. no_name_error (f x)) \<Longrightarrow> no_name_error (map_result f xs)"
  by (induction xs) (auto intro!: nn_ebind)

lemma nn_finalize_node: "no_name_error (finalize_node na)"
  by (simp add: finalize_node_def split: option.splits attr.splits)

lemma nn_finalize_edge: "no_name_error (finalize_edge e)"
  by (simp add: finalize_edge_def split: option.splits attr.splits)

lemma nn_finalize: "no_name_error (finalize g)"
  unfolding finalize_def
  by (intro nn_ebind nn_map_result nn_finalize_node nn_finalize_edge nn_Inr)

lemma row_body_binds: "row_body H dea st row = Inr st' \<Longrightarrow> snd st' \<noteq> None"
  by (auto simp: row_body_def ebind_eq_Inr)

lemma row_loop_binds:
  "for_each (row_body H dea) st rs = Inr st' \<Longrightarrow> rs \<noteq> [] \<or> snd st \<noteq> None \<Longrightarrow> snd st' \<noteq> None"
proof (induction rs arbitrary: st)
  case Nil
  then show ?case by simp
next
  case (Cons r rs)
  from Cons.prems(1) obtain t where t: "row_body H dea st r = Inr t"
    and rest: "for_each (row_body H dea) t rs = Inr st'"
    by (auto simp: ebind_eq_Inr)
  from t have "snd t \<noteq> None" by (rule row_body_binds)
  then show ?case using Cons.IH [OF rest] by simp
qed

lemma build_graph_empty: "rows df = [] \<Longrightarrow> build_graph H df dd = Inl NameError"
  by (simp add: build_graph_def)

lemma build_graph_nonempty:
  assumes "rows df \<noteq> []"
  shows "no_name_error (build_graph H df dd)"
proof (cases "for_each (row_body H (dea_columns df)) (empty_graph, None) (rows df)")
  case (Inl e)
  have "no_name_error (for_each (row_body H (dea_columns df)) (empty_graph, None) (rows df))"
    by (intro nn_for_each nn_row_body)
  then show ?thesis using Inl by (simp add: build_graph_def)
next
  case (Inr st)
  have "snd st \<noteq> None" using row_loop_binds [OF Inr] assms by simp
  then obtain row l where v: "snd st = Some (row, l)" by (cases "snd st") auto
  have third: "no_name_error
     (case dd of None \<Rightarrow> Inr g1
      | Some d \<Rightarrow>
          ebind (select_columns d [''identifier'', ''drug_diseases'']) (\<lambda>sub.
            let fuse_df2 = pd_concat df sub
            in if ''drug_diseases'' \<in> set (map fst row)
               then for_each (ddi_pass_body H) g1 (rows fuse_df2)
               else Inr g1))" for g1
    by (cases dd) (simp_all add: Let_def nn_ebind nn_select_columns nn_for_each nn_ddi_pass_body)
  show ?thesis
    unfolding build_graph_def Inr ebind_simps v option.case prod.case
    by (rule nn_ebind [OF nn_if [OF nn_for_each [OF nn_ppi_pass_body] nn_Inr] third])
qed

text \<open>
  Claim C10. \<^verbatim>\<open>generate_networkx_graph\<close> fails with the NameError of the unbound
  loop variable \<^verbatim>\<open>row\<close> at the test \<^verbatim>\<open>"stringdb" in row\<close> on every table with no
  rows, and on a table with at least one row it never fails with a NameError: the variable
  is bound whenever the row loop has come to its end.
\<close>

theorem generate_networkx_graph_name_error_iff_no_rows:
  "generate_networkx_graph H fuse_df drug_disease = Inl NameError \<longleftrightarrow> rows fuse_df = []"
proof
  assume "rows fuse_df = []"
  then show "generate_networkx_graph H fuse_df drug_disease = Inl NameError"
    by (simp add: generate_networkx_graph_def build_graph_empty)
next
  assume a: "generate_networkx_graph H fuse_df drug_disease = Inl NameError"
  show "rows fuse_df = []"
  proof (rule ccontr)
    assume "rows fuse_df \<noteq> []"
    then have "no_name_error (build_graph H fuse_df drug_disease)"
      by (rule build_graph_nonempty)
    then have "no_name_error (generate_networkx_graph H fuse_df drug_disease)"
      unfolding generate_networkx_graph_def by (intro nn_ebind nn_finalize)
    then show False using a by (simp add: no_name_error_def)
  qed
qed

theorem generate_networkx_graph_name_error_iff_no_rows_witness:
  "generate_networkx_graph (\<lambda>s. 0) \<lparr>columns = [''identifier''], rows = []\<rparr> None
     = Inl NameError"
  using generate_networkx_graph_name_error_iff_no_rows
          [of "\<lambda>s. 0" "\<lparr>columns = [''identifier''], rows = []\<rparr>" None]
  by simp

section \<open>Records without an identifying field\<close>

text \<open>
  Claim C2. A record whose identifying field is missing should leave no node and no edge.
  The GO builder tests nothing: for a record whose \<^verbatim>\<open>go_name\<close> is NaN it adds the node
  NaN and an edge from the gene to it.
\<close>

theorem go_builder_keeps_record_without_name:
  "add_opentargets_go_subgraph (\<lambda>s. 0) gene_only_graph (SStr ''G1'')
     [[(''go_name'', SNaN), (''go_id'', SStr ''GO:0008150'')]]
   = Inr \<lparr>nodes =
            [(SStr ''G1'', node_kw [(SStr ''source'', Scalar (SStr ''BridgeDB''))]),
             (SNaN,
              node_kw [(SStr ''source'', Scalar (SStr ''OpenTargets'')),
                       (SStr ''name'', Scalar SNaN),
                       (SStr ''id'', Scalar (SStr ''GO:0008150'')),
                       (SStr ''labels'', Scalar (SStr ''GO''))])],
          edges =
            [(SStr ''G1'', SNaN,
              [(SStr ''label'', Val (Scalar (SStr ''part_of_go''))),
               (SStr ''attr_dict'',
                Dict [(SStr ''source'', Scalar (SStr ''OpenTargets'')),
                      (SStr ''label'', Scalar (SStr ''part_of_go'')),
                      (SStr ''edge_hash'', Scalar (SNum 0))])])]\<rparr>"
  by code_simp

section \<open>The later passes\<close>

text \<open>
  Claim C5. The interaction pass should attach the interactions of a row to the gene of
  that row. It passes \<^verbatim>\<open>gene_node_label\<close>, which the row loop left at the gene of the
  last row: the interaction of G1 with G2 becomes a loop at G2, and G1 has no edge.
\<close>

theorem interaction_pass_attaches_to_last_gene:
  "generate_networkx_graph (\<lambda>s. 0) ppi_table None
   = Inr \<lparr>nodes =
            [(SStr ''G1'',
              [(SStr ''source'', Val (Scalar (SStr ''BridgeDB''))),
               (SStr ''labels'', Val (Scalar (SStr ''G1''))),
               (SStr ''id'', Val (Scalar (SStr ''T1''))),
               (SStr ''node_type'', Val (Scalar (SStr ''Gene''))),
               (SStr ''Ensembl'', Val (Scalar (SStr ''T1'')))]),
             (SStr ''G2'',
              [(SStr ''source'', Val (Scalar (SStr ''BridgeDB''))),
               (SStr ''labels'', Val (Scalar (SStr ''G2''))),
               (SStr ''id'', Val (Scalar (SStr ''T2''))),
               (SStr ''node_type'', Val (Scalar (SStr ''Gene''))),
               (SStr ''Ensembl'', Val (Scalar (SStr ''T2'')))])],
          edges =
            [(SStr ''G2'', SStr ''G2'',
              [(SStr ''label'', Val (Scalar (SStr ''interacts_with''))),
               (SStr ''source'', Val (Scalar (SStr ''STRING''))),
               (SStr ''score'', Val (Scalar (SNum 1)))])]\<rparr>"
  by code_simp

text \<open>
  Claim C6. A drug-disease table that is supplied should give a third pass with an edge for
  each of its records. The pass is guarded by \<^verbatim>\<open>"drug_diseases" in row\<close>, where
  \<^verbatim>\<open>row\<close> is still a row of the table before the concatenation: when that table has no
  such column, the records of the supplied table give no edge at all.
\<close>

theorem drug_disease_table_without_third_pass:
  "generate_networkx_graph (\<lambda>s. 0) two_gene_table (Some drug_disease_table)
   = Inr \<lparr>nodes =
            [(SStr ''G1'',
              [(SStr ''source'', Val (Scalar (SStr ''BridgeDB''))),
               (SStr ''labels'', Val (Scalar (SStr ''G1''))),
               (SStr ''id'', Val (Scalar (SStr ''T1''))),
               (SStr ''node_type'', Val (Scalar (SStr ''Gene''))),
               (SStr ''Ensembl'', Val (Scalar (SStr ''T1'')))]),
             (SStr ''G2'',
              [(SStr ''source'', Val (Scalar (SStr ''BridgeDB''))),
               (SStr ''labels'', Val (Scalar (SStr ''G2''))),
               (SStr ''id'', Val (Scalar (SStr ''T2''))),
               (SStr ''node_type'', Val (Scalar (SStr ''Gene''))),
               (SStr ''Ensembl'', Val (Scalar (SStr ''T2'')))])],
          edges = []\<rparr>"
  by code_simp

section \<open>The optional attributes of the Bgee builder\<close>

text \<open>
  Claim C8. Each optional attribute of the anatomical entity should carry the value of its
  own record field. The attribute \<^verbatim>\<open>confidence_level\<close> is read from the field
  \<^verbatim>\<open>drugbank_id\<close>: a record with a confidence level and no such field raises KeyError,
  and with such a field the attribute is the DrugBank identifier.
\<close>

theorem bgee_confidence_level_reads_drugbank_id:
  "add_bgee_subgraph (\<lambda>s. 0) gene_only_graph (SStr ''G1'') [bgee_record] = Inl KeyError \<and>
   add_bgee_subgraph (\<lambda>s. 0) gene_only_graph (SStr ''G1'')
     [bgee_record @ [(''drugbank_id'', SStr ''DB00001'')]]
   = Inr \<lparr>nodes =
            [(SStr ''G1'', node_kw [(SStr ''source'', Scalar (SStr ''BridgeDB''))]),
             (SStr ''liver'',
              node_kw [(SStr ''source'', Scalar (SStr ''Bgee'')),
                       (SStr ''name'', Scalar (SStr ''liver'')),
                       (SStr ''id'', Scalar (SStr ''UBERON:0002107'')),
                       (SStr ''labels'', Scalar (SStr ''Anatomical Entity'')),
                       (SStr ''anatomical_entity_id'', Scalar (SStr ''UBERON:0002107'')),
                       (SStr ''anatomical_entity_name'', Scalar (SStr ''liver'')),
                       (SStr ''confidence_level'', Scalar (SStr ''DB00001''))])],
          edges =
            [(SStr ''G1'', SStr ''liver'',
              [(SStr ''label'', Val (Scalar (SStr ''expressed_in''))),
               (SStr ''attr_dict'',
                Dict [(SStr ''source'', Scalar (SStr ''Bgee'')),
                      (SStr ''label'', Scalar (SStr ''expressed_in'')),
                      (SStr ''edge_hash'', Scalar (SNum 0))])])]\<rparr>"
  by code_simp

section \<open>The drug-disease builder\<close>

lemma ensure_node_edges: "ensure_node g n = Inr g' \<Longrightarrow> edges g' = edges g"
  by (auto simp: ensure_node_def split: if_splits)

lemma add_edge_edges:
  "add_edge g u v a = Inr g' \<Longrightarrow> edges g' = edges g @ [(u, v, dict_update [] a)]"
  by (auto simp: add_edge_def ebind_eq_Inr dest!: ensure_node_edges)

lemma drug_disease_body_edges:
  assumes "drug_disease_body H (Scalar gene) g ddi = Inr g'"
  shows "\<exists>umls. map_of ddi ''umls'' = Some umls \<and>
           edges g' = (if has_edge g umls gene then edges g
                       else edges g @ [(umls, gene, treated_with_attrs H)])"
  using assms
  by (auto simp: drug_disease_body_def Let_def ebind_eq_Inr getitem_def dict_update_def
        treated_with_attrs_def
      split: option.splits if_splits dest!: add_edge_edges)

lemma edges_between_append:
  "edges g' = edges g @ [(u0, v0, a)] \<Longrightarrow>
   edges_between g' u v = edges_between g u v @ (if u = u0 \<and> v = v0 then [a] else [])"
  by (simp add: edges_between_def)

lemma edges_between_same: "edges g' = edges g \<Longrightarrow> edges_between g' u v = edges_between g u v"
  by (simp add: edges_between_def)

text \<open>
  Claim C9. The drug-disease builder points its edge from the disease identifier to the
  gene, and adds it only where no edge at all lies between that ordered pair: after the
  builder, the parallel edges of a pair are those of before, except that a pair (disease
  identifier of a record, gene) that had none has exactly the one \<^verbatim>\<open>treated_with\<close> edge.
\<close>

theorem add_drug_disease_subgraph_edges_between:
  "add_drug_disease_subgraph H g (Scalar gene) annot_list = Inr g' \<Longrightarrow>
   edges_between g' u v =
     (if v = gene \<and> edges_between g u v = [] \<and> (\<exists>ddi \<in> set annot_list. map_of ddi ''umls'' = Some u)
      then [treated_with_attrs H]
      else edges_between g u v)"
proof (induction annot_list arbitrary: g)
  case Nil
  then show ?case by (simp add: add_drug_disease_subgraph_def)
next
  case (Cons ddi rest)
  from Cons.prems obtain g1 where
    step: "drug_disease_body H (Scalar gene) g ddi = Inr g1" and
    rest: "add_drug_disease_subgraph H g1 (Scalar gene) rest = Inr g'"
    by (auto simp: add_drug_disease_subgraph_def ebind_eq_Inr)
  from drug_disease_body_edges [OF step] obtain umls where
    both: "map_of ddi ''umls'' = Some umls \<and>
           edges g1 = (if has_edge g umls gene then edges g
                       else edges g @ [(umls, gene, treated_with_attrs H)])" ..
  note umls = both [THEN conjunct1] and e1 = both [THEN conjunct2]
  have b1: "edges_between g1 u v =
        (if v = gene \<and> u = umls \<and> edges_between g u v = [] then [treated_with_attrs H]
         else edges_between g u v)"
  proof (cases "has_edge g umls gene")
    case True
    then have "edges g1 = edges g" using e1 by simp
    then have "edges_between g1 u v = edges_between g u v" by (rule edges_between_same)
    then show ?thesis using True by (auto simp: has_edge_def)
  next
    case False
    then have "edges g1 = edges g @ [(umls, gene, treated_with_attrs H)]" using e1 by simp
    then have "edges_between g1 u v =
        edges_between g u v @ (if u = umls \<and> v = gene then [treated_with_attrs H] else [])"
      by (rule edges_between_append)
    then show ?thesis using False by (auto simp: has_edge_def)
  qed
  show ?case
    unfolding Cons.IH [OF rest] b1 using umls by auto
qed

theorem add_drug_disease_subgraph_edges_between_witness:
  "add_drug_disease_subgraph (\<lambda>s. 0) gene_only_graph (Scalar (SStr ''G1''))
     [[(''umls'', SStr ''C0001'')], [(''umls'', SStr ''C0001'')]]
   = Inr \<lparr>nodes =
            [(SStr ''G1'', node_kw [(SStr ''source'', Scalar (SStr ''BridgeDB''))]),
             (SStr ''C0001'', [])],
          edges = [(SStr ''C0001'', SStr ''G1'', treated_with_attrs (\<lambda>s. 0))]\<rparr> \<and>
   edges_between
     \<lparr>nodes =
        [(SStr ''G1'', node_kw [(SStr ''source'', Scalar (SStr ''BridgeDB''))]),
         (SStr ''C0001'', [])],
      edges = [(SStr ''C0001'', SStr ''G1'', treated_with_attrs (\<lambda>s. 0))]\<rparr>
     (SStr ''C0001'') (SStr ''G1'')
   = [treated_with_attrs (\<lambda>s. 0)]"
proof -
  have run: "add_drug_disease_subgraph (\<lambda>s. 0) gene_only_graph (Scalar (SStr ''G1''))
       [[(''umls'', SStr ''C0001'')], [(''umls'', SStr ''C0001'')]]
     = Inr \<lparr>nodes =
              [(SStr ''G1'', node_kw [(SStr ''source'', Scalar (SStr ''BridgeDB''))]),
               (SStr ''C0001'', [])],
            edges = [(SStr ''C0001'', SStr ''G1'', treated_with_attrs (\<lambda>s. 0))]\<rparr>"
    by code_simp
  have none: "edges_between gene_only_graph (SStr ''C0001'') (SStr ''G1'') = []"
    by (simp add: gene_only_graph_def edges_between_def)
  show ?thesis
    using add_drug_disease_subgraph_edges_between
            [OF run, of "SStr ''C0001''" "SStr ''G1''"] run none
    by simp
qed


section \<open>Idempotent edge insertion\<close>

lemma dict_update_node_kw [simp]:
  "dict_update a (node_kw d) = AList.update (SStr ''attr_dict'') (Dict d) a"
  by (simp add: dict_update_def node_kw_def)

lemma add_node_stored: "add_node g n (node_kw d) = Inr g' \<Longrightarrow> node_stored g' n d"
  by (auto simp: add_node_def node_stored_def update_conv' map_add_def
      split: option.splits if_splits)

lemma stored_add_node: "node_stored g n d \<Longrightarrow> add_node g n (node_kw d) = Inr g"
  by (auto simp: add_node_def node_stored_def update_triv split: option.splits)


lemma ensure_node_keeps: 
  "ensure_node g m = Inr g' \<Longrightarrow> map_of (nodes g) n = Some a \<Longrightarrow> map_of (nodes g') n = Some a"
  by (auto simp: ensure_node_def has_node_def map_add_def split: if_splits option.splits)

lemma add_edge_keeps:
  "add_edge g u v at = Inr g' \<Longrightarrow> map_of (nodes g) n = Some a \<Longrightarrow> map_of (nodes g') n = Some a"
  by (auto simp: add_edge_def ebind_eq_Inr dest: ensure_node_keeps)

lemma add_hashed_edge_keeps:
  "add_hashed_edge H g u v l ea = Inr g' \<Longrightarrow> map_of (nodes g) n = Some a \<Longrightarrow>
   map_of (nodes g') n = Some a"
  by (auto simp: add_hashed_edge_def Let_def ebind_eq_Inr split: if_splits dest: add_edge_keeps)

lemma add_hashed_edge_stored:
  "add_hashed_edge H g u v l ea = Inr g' \<Longrightarrow> node_stored g n d \<Longrightarrow> node_stored g' n d"
  by (auto simp: node_stored_def split: option.splits dest: add_hashed_edge_keeps)





lemma node_edge_idem:
  "add_node g n (node_kw d) = Inr g1 \<Longrightarrow> add_hashed_edge H g1 u v l ea = Inr g2 \<Longrightarrow>
   add_node g2 n (node_kw d) = Inr g2"
  by (rule stored_add_node) (rule add_hashed_edge_stored, assumption, rule add_node_stored)










































































section \<open>Repeated contributions to one node\<close>

lemma add_node_container_only:
  assumes "add_node g n (node_kw d) = Inr g'"
    and "map_of (nodes g) n = None \<or> (\<exists>d0. container_only g n d0)"
  shows "container_only g' n d"
proof (cases "map_of (nodes g) n")
  case None
  then have "nodes g' = nodes g @ [(n, [(SStr ''attr_dict'', Dict d)])]"
    using assms(1) by (auto simp: add_node_def split: if_splits)
  then show ?thesis using None by (simp add: container_only_def map_add_def)
next
  case (Some a)
  then have a: "map_of a = [SStr ''attr_dict'' \<mapsto> Dict d0]" if "container_only g n d0" for d0
    using that by (simp add: container_only_def)
  from Some assms(2) obtain d0 where "container_only g n d0" by auto
  then have a0: "map_of a = [SStr ''attr_dict'' \<mapsto> Dict d0]" by (rule a)
  have "nodes g' = AList.update n (AList.update (SStr ''attr_dict'') (Dict d) a) (nodes g)"
    using assms(1) Some by (auto simp: add_node_def)
  then show ?thesis using a0 by (simp add: container_only_def update_conv')
qed

lemma add_node_loop_container_only:
  "for_each (\<lambda>g d. add_node g n (node_kw d)) g ds = Inr g1 \<Longrightarrow> ds \<noteq> [] \<Longrightarrow>
   map_of (nodes g) n = None \<or> (\<exists>d0. container_only g n d0) \<Longrightarrow>
   container_only g1 n (last ds)"
proof (induction ds arbitrary: g)
  case Nil
  then show ?case by simp
next
  case (Cons d ds)
  from Cons.prems(1) obtain g2 where a: "add_node g n (node_kw d) = Inr g2"
    and r: "for_each (\<lambda>g d. add_node g n (node_kw d)) g2 ds = Inr g1"
    by (auto simp: ebind_eq_Inr)
  have c: "container_only g2 n d" using a Cons.prems(3) by (rule add_node_container_only)
  show ?case
  proof (cases "ds = []")
    case True
    then show ?thesis using r c by simp
  next
    case False
    have "container_only g1 n (last ds)"
      using r False by (rule Cons.IH) (use c in blast)
    then show ?thesis using False by simp
  qed
qed

lemma promote_node_map_of:
  "distinct (map fst d) \<Longrightarrow>
   map_of (promote_node d a) k =
     (case map_of d k of
        None \<Rightarrow> map_of a k
      | Some v \<Rightarrow> if v = Scalar SNone then map_of a k else Some (Val v))"
proof (induction d arbitrary: a)
  case Nil
  then show ?case by (simp add: promote_node_def)
next
  case (Cons p d)
  obtain k0 v0 where p: "p = (k0, v0)" by (cases p)
  let ?a1 = "if v0 \<noteq> Scalar SNone then AList.update k0 (Val v0) a else a"
  have unfold: "promote_node (p # d) a = promote_node d ?a1"
    by (simp add: promote_node_def p)
  have d: "distinct (map fst d)" and fresh: "map_of d k0 = None"
    using Cons.prems p by (auto simp: map_of_eq_None_iff)
  show ?case
    unfolding unfold Cons.IH [OF d] using fresh
    by (cases "k = k0") (auto simp: p update_conv' split: option.splits)
qed

lemma finalize_node_container_only:
  assumes "map_of a = [SStr ''attr_dict'' \<mapsto> Dict d]" and "distinct (map fst d)"
  shows "\<exists>a'. finalize_node (n, a) = Inr (n, a') \<and>
     (\<forall>k. map_of a' k =
        (if k = SStr ''attr_dict'' then None
         else case map_of d k of
                None \<Rightarrow> None
              | Some v \<Rightarrow> if v = Scalar SNone then None else Some (Val v)))"
proof -
  have c: "map_of a (SStr ''attr_dict'') = Some (Dict d)" using assms(1) by simp
  have f: "finalize_node (n, a) =
      Inr (n, AList.delete (SStr ''attr_dict'') (promote_node d a))"
    by (simp add: finalize_node_def c)
  have "map_of (AList.delete (SStr ''attr_dict'') (promote_node d a)) k =
        (if k = SStr ''attr_dict'' then None
         else case map_of d k of
                None \<Rightarrow> None
              | Some v \<Rightarrow> if v = Scalar SNone then None else Some (Val v))" for k
    by (simp add: delete_conv' promote_node_map_of [OF assms(2)] assms(1) split: option.splits)
  then show ?thesis using f by blast
qed

text \<open>
  Claim C1, as the code has it. \<^verbatim>\<open>add_node(label, attr_dict=d)\<close> replaces the container
  of the node by \<open>d\<close>: contributions are not merged. After any sequence of contributions to
  a label, the finalized node has exactly the entries of the last contribution whose value
  is not \<^verbatim>\<open>None\<close>; an entry whose value is \<^verbatim>\<open>None\<close> is never written. (A
  dictionary has each key once: \<open>distinct\<close>.)
\<close>

theorem last_contribution_replaces_container:
  assumes "map_of (nodes g) n = None" and "ds \<noteq> []" and "distinct (map fst (last ds))"
    and "for_each (\<lambda>g d. add_node g n (node_kw d)) g ds = Inr g1"
  shows "\<exists>a a'. map_of (nodes g1) n = Some a \<and> finalize_node (n, a) = Inr (n, a') \<and>
     (\<forall>k. map_of a' k =
        (if k = SStr ''attr_dict'' then None
         else case map_of (last ds) k of
                None \<Rightarrow> None
              | Some v \<Rightarrow> if v = Scalar SNone then None else Some (Val v)))"
proof -
  have "container_only g1 n (last ds)"
    using assms(4,2) by (rule add_node_loop_container_only) (use assms(1) in simp)
  then obtain a where a: "map_of (nodes g1) n = Some a"
    and m: "map_of a = [SStr ''attr_dict'' \<mapsto> Dict (last ds)]"
    by (auto simp: container_only_def split: option.splits)
  from finalize_node_container_only [OF m assms(3), of n] a show ?thesis by blast
qed

theorem last_contribution_replaces_container_witness:
  "for_each (\<lambda>g d. add_node g (SStr ''G1'') (node_kw d)) empty_graph
     [[(SStr ''Ensembl'', Scalar (SStr ''T1''))],
      [(SStr ''NCBI'', Scalar (SStr ''T2'')), (SStr ''id'', Scalar SNone)]]
   = Inr \<lparr>nodes = [(SStr ''G1'',
                     node_kw [(SStr ''NCBI'', Scalar (SStr ''T2'')), (SStr ''id'', Scalar SNone)])],
          edges = []\<rparr> \<and>
   (\<exists>a a'. map_of (nodes \<lparr>nodes = [(SStr ''G1'',
                     node_kw [(SStr ''NCBI'', Scalar (SStr ''T2'')), (SStr ''id'', Scalar SNone)])],
          edges = []\<rparr>) (SStr ''G1'') = Some a \<and>
      finalize_node (SStr ''G1'', a) = Inr (SStr ''G1'', a') \<and>
      map_of a' (SStr ''NCBI'') = Some (Val (Scalar (SStr ''T2''))) \<and>
      map_of a' (SStr ''id'') = None \<and>
      map_of a' (SStr ''Ensembl'') = None)"
proof -
  have run: "for_each (\<lambda>g d. add_node g (SStr ''G1'') (node_kw d)) empty_graph
     [[(SStr ''Ensembl'', Scalar (SStr ''T1''))],
      [(SStr ''NCBI'', Scalar (SStr ''T2'')), (SStr ''id'', Scalar SNone)]]
   = Inr \<lparr>nodes = [(SStr ''G1'',
                     node_kw [(SStr ''NCBI'', Scalar (SStr ''T2'')), (SStr ''id'', Scalar SNone)])],
          edges = []\<rparr>"
    by code_simp
  have fresh: "map_of (nodes empty_graph) (SStr ''G1'') = None" by (simp add: empty_graph_def)
  have ne: "[[(SStr ''Ensembl'', Scalar (SStr ''T1''))],
      [(SStr ''NCBI'', Scalar (SStr ''T2'')), (SStr ''id'', Scalar SNone)]] \<noteq> []" by simp
  have dist: "distinct (map fst (last [[(SStr ''Ensembl'', Scalar (SStr ''T1''))],
      [(SStr ''NCBI'', Scalar (SStr ''T2'')), (SStr ''id'', Scalar SNone)]]))" by simp
  from last_contribution_replaces_container [OF fresh ne dist run] obtain a a' where
    r: "map_of (nodes \<lparr>nodes = [(SStr ''G1'',
                     node_kw [(SStr ''NCBI'', Scalar (SStr ''T2'')), (SStr ''id'', Scalar SNone)])],
          edges = []\<rparr>) (SStr ''G1'') = Some a \<and>
      finalize_node (SStr ''G1'', a) = Inr (SStr ''G1'', a') \<and>
      (\<forall>k. map_of a' k =
        (if k = SStr ''attr_dict'' then None
         else case map_of (last [[(SStr ''Ensembl'', Scalar (SStr ''T1''))],
      [(SStr ''NCBI'', Scalar (SStr ''T2'')), (SStr ''id'', Scalar SNone)]]) k of
                None \<Rightarrow> None
              | Some v \<Rightarrow> if v = Scalar SNone then None else Some (Val v)))"
    by blast
  have "map_of a' (SStr ''NCBI'') = Some (Val (Scalar (SStr ''T2'')))"
    "map_of a' (SStr ''id'') = None" "map_of a' (SStr ''Ensembl'') = None"
    using r by simp_all
  then show ?thesis using run r by blast
qed

text \<open>
  The claim as stated fails for a gene that occurs in two rows: the first row contributes
  the attribute \<^verbatim>\<open>Ensembl\<close>, the second replaces the container, and the finalized node
  has no such attribute, where the union of the contributions has it.
\<close>

theorem gene_upserted_twice_loses_first_contribution:
  "gene_node_attrs (dea_columns regene_table) (gene_row ''G1'' ''T1'' ''Ensembl'')
   = Inr [(SStr ''source'', Scalar (SStr ''BridgeDB'')),
          (SStr ''labels'', Scalar (SStr ''G1'')),
          (SStr ''id'', Scalar (SStr ''T1'')),
          (SStr ''node_type'', Scalar (SStr ''Gene'')),
          (SStr ''Ensembl'', Scalar (SStr ''T1''))] \<and>
   generate_networkx_graph (\<lambda>s. 0) regene_table None
   = Inr \<lparr>nodes =
            [(SStr ''G1'',
              [(SStr ''source'', Val (Scalar (SStr ''BridgeDB''))),
               (SStr ''labels'', Val (Scalar (SStr ''G1''))),
               (SStr ''id'', Val (Scalar (SStr ''T2''))),
               (SStr ''node_type'', Val (Scalar (SStr ''Gene''))),
               (SStr ''NCBI'', Val (Scalar (SStr ''T2'')))])],
          edges = []\<rparr>"
  by code_simp

section \<open>Cells that are not lists\<close>

text \<open>
  Claim C7. A cell that is not a list should count as an empty record list in the dispatch
  and in the two later passes alike. The dispatch replaces every cell that is not a list;
  the interaction pass replaces only \<^verbatim>\<open>None\<close>, so the missing-value float in the
  \<^verbatim>\<open>stringdb\<close> column is iterated as it is and the TypeError leaves
  \<^verbatim>\<open>generate_networkx_graph\<close>.
\<close>

theorem interaction_pass_raises_on_nan_cell:
  "generate_networkx_graph (\<lambda>s. 0) nan_interaction_table None = Inl TypeError"
  by code_simp

text \<open>
  The same missing-value float in a registry column is replaced by the empty list, and the
  drug-disease pass, which replaces the float, raises on \<^verbatim>\<open>None\<close>.
\<close>

lemma dispatch_recovers_nan_cell:
  "generate_networkx_graph (\<lambda>s. 0) nan_registry_table None
   = Inr \<lparr>nodes =
            [(SStr ''G1'',
              [(SStr ''source'', Val (Scalar (SStr ''BridgeDB''))),
               (SStr ''labels'', Val (Scalar (SStr ''G1''))),
               (SStr ''id'', Val (Scalar (SStr ''T1''))),
               (SStr ''node_type'', Val (Scalar (SStr ''Gene''))),
               (SStr ''Ensembl'', Val (Scalar (SStr ''T1'')))])],
          edges = []\<rparr>"
  by code_simp

lemma drug_disease_pass_raises_on_none_cell:
  "generate_networkx_graph (\<lambda>s. 0) none_drug_disease_table (Some drug_disease_table)
   = Inl TypeError"
  by code_simp

end
